theory Spec2Isabelle
  imports Complex_Main "HOL-Library.Sublist" "HOL-Library.List_Lexorder" "HOL-Library.Char_ord"
begin

section \<open>Data model\<close>

text \<open>
  The module \<^verbatim>\<open>data_wrangling.py\<close> works on pandas data frames. A data frame is
  modelled as the list of its columns, in column order; each column carries its label,
  the text of its storage type (\<^verbatim>\<open>str(series.dtype)\<close>) and its cells. Column labels
  are strings, as the source concatenates them with string suffixes. The cell type of an
  uploaded dataset is a type parameter \<open>'v\<close>. Rows are numbered \<^verbatim>\<open>0, 1, ...\<close>, the
  row index pandas' readers give a dataset; a data frame with another row index is not
  modelled.

  Python exceptions are values of \<open>error\<close>; a function that may raise returns
  \<open>error + result\<close>.
\<close>

datatype error = KeyError | AttributeError | ValueError | TypeError | UnboundLocalError

record 'c column =
  name :: string
  dtype :: string
  vals :: "'c list"

type_synonym 'c dataframe = "'c column list"

text \<open>A dictionary from strings to strings, as \<^verbatim>\<open>dtype_map\<close> is.\<close>

type_synonym dict = "string \<rightharpoonup> string"

text \<open>
  \<^verbatim>\<open>df[col]\<close> selects by label. pandas returns a Series when exactly one column has
  the label, a DataFrame when several have it, and raises KeyError when none has.
  \<open>getitem\<close> returns the selected columns.
\<close>

definition getitem :: "'c dataframe \<Rightarrow> string \<Rightarrow> error + 'c column list" where
  "getitem df col =
     (case filter (\<lambda>c. name c = col) df of
        [] \<Rightarrow> Inl KeyError
      | cs \<Rightarrow> Inr cs)"

text \<open>
  \<^verbatim>\<open>str(df[col].dtype)\<close>: a DataFrame (several columns of that label) has no
  attribute \<^verbatim>\<open>dtype\<close>.
\<close>

definition series_dtype :: "'c dataframe \<Rightarrow> string \<Rightarrow> error + string" where
  "series_dtype df col =
     (case getitem df col of
        Inl e \<Rightarrow> Inl e
      | Inr cs \<Rightarrow> (case cs of [c] \<Rightarrow> Inr (dtype c) | _ \<Rightarrow> Inl AttributeError))"

section \<open>Type classifier\<close>

text \<open>
  \<^verbatim>\<open>[dtype_map[a] for a in [str(typ) for typ in df.dtypes]]\<close>: a missing key raises
  KeyError at the first storage type that is absent.
\<close>

fun lookup_all :: "dict \<Rightarrow> string list \<Rightarrow> error + string list" where
  "lookup_all dtype_map [] = Inr []"
| "lookup_all dtype_map (a # as) =
     (case dtype_map a of
        None \<Rightarrow> Inl KeyError
      | Some t \<Rightarrow>
          (case lookup_all dtype_map as of
             Inl e \<Rightarrow> Inl e
           | Inr ts \<Rightarrow> Inr (t # ts)))"

text \<open>The frame with the two columns \<^verbatim>\<open>Variable\<close> and \<^verbatim>\<open>Type\<close>.\<close>

record type_df =
  Variable :: "string list"
  Type :: "string list"

definition create_type_df :: "'c dataframe \<Rightarrow> dict \<Rightarrow> error + type_df" where
  "create_type_df df dtype_map =
     (case lookup_all dtype_map (map dtype df) of
        Inl e \<Rightarrow> Inl e
      | Inr ts \<Rightarrow> Inr \<lparr>Variable = map name df, Type = ts\<rparr>)"

section \<open>Encodable columns\<close>

text \<open>
  Python's \<^verbatim>\<open>needle in haystack\<close> on two strings: the needle starts at some position
  of the haystack.
\<close>

fun str_contains :: "string \<Rightarrow> string \<Rightarrow> bool" where
  "str_contains [] needle = (needle = [])"
| "str_contains (h # hs) needle = (prefix needle (h # hs) \<or> str_contains hs needle)"

text \<open>
  The comprehension of \<^verbatim>\<open>find_valid_cols\<close>. For each label the storage type is
  looked up first (\<^verbatim>\<open>and\<close> evaluates its left operand first), so an absent storage
  type raises whatever the label is.
\<close>

fun valid_cols :: "'c dataframe \<Rightarrow> string \<Rightarrow> dict \<Rightarrow> string list \<Rightarrow> error + string list" where
  "valid_cols df target_var dtype_map [] = Inr []"
| "valid_cols df target_var dtype_map (col # cols) =
     (case series_dtype df col of
        Inl e \<Rightarrow> Inl e
      | Inr d \<Rightarrow>
          (case dtype_map d of
             None \<Rightarrow> Inl KeyError
           | Some t \<Rightarrow>
               (case valid_cols df target_var dtype_map cols of
                  Inl e \<Rightarrow> Inl e
                | Inr rest \<Rightarrow>
                    Inr (if t = ''Categorical'' \<and> \<not> str_contains target_var col
                         then col # rest else rest))))"

definition find_valid_cols :: "'c dataframe \<Rightarrow> string \<Rightarrow> dict \<Rightarrow> error + string list" where
  "find_valid_cols df target_var dtype_map = valid_cols df target_var dtype_map (map name df)"

section \<open>What is taken from Python and its libraries\<close>

text \<open>
  The encoders, the scaler and the decomposition are scikit-learn's, the conversions are
  pandas'. Their structure (which categories are found, how many output columns there
  are, which requests are refused) is modelled below from their documented behaviour.
  What they compute in floating point, how they parse text and which cell values they
  refuse is not modelled: it is a parameter of the model, one field of \<open>runtime\<close>
  each, and every theorem holds for all values of these parameters.
\<close>

datatype 'v cell = Cell 'v | Int8 int | Float64 real

datatype target_type = Auto | Continuous | Binary | Multiclass

text \<open>
  Where a division of zero by zero can reach the caller, a floating-point number is a
  number or \<^verbatim>\<open>nan\<close>. A sum with \<^verbatim>\<open>nan\<close> is \<^verbatim>\<open>nan\<close>, and every comparison with
  \<^verbatim>\<open>nan\<close> is false.
\<close>

datatype float64 = Finite real | NaN



record 'v runtime =
  str :: "'v \<Rightarrow> string"
    \<comment> \<open>Python's \<^verbatim>\<open>str\<close> on a cell value\<close>
  to_datetime :: "'v column \<Rightarrow> error + 'v column"
    \<comment> \<open>\<^verbatim>\<open>pd.to_datetime\<close> on a Series: the parse, or the exception it raises\<close>
  astype :: "string \<Rightarrow> 'v column \<Rightarrow> error + 'v column"
    \<comment> \<open>\<^verbatim>\<open>Series.astype(dtype)\<close>: the conversion, or the exception it raises\<close>
  check_X :: "'v list \<Rightarrow> error option"
    \<comment> \<open>the encoders' validation of the cell values of a non-empty input column\<close>
  check_y :: "target_type \<Rightarrow> 'v list \<Rightarrow> error option"
    \<comment> \<open>the target encoder's validation of the target's values, for the target type fitted\<close>
  is_continuous :: "'v list \<Rightarrow> bool"
    \<comment> \<open>\<^verbatim>\<open>type_of_target\<close> finds floating-point values that are not whole numbers\<close>
  te_encoding :: "'v list \<Rightarrow> 'v list \<Rightarrow> nat \<Rightarrow> 'v option \<Rightarrow> real"
    \<comment> \<open>the smoothed target statistic written to a row, for a class or for the target itself\<close>
  pca_check :: "'v cell dataframe \<Rightarrow> error option"
    \<comment> \<open>the scaler's and the decomposition's validation of the cell values\<close>
  pca_score :: "'v cell dataframe \<Rightarrow> nat \<Rightarrow> nat \<Rightarrow> nat \<Rightarrow> real"
    \<comment> \<open>the score of a row on a component, for a number of components\<close>
  pca_ratio :: "'v cell dataframe \<Rightarrow> nat \<Rightarrow> float64"
    \<comment> \<open>\<^verbatim>\<open>explained_variance_ratio_\<close> of the full decomposition, at a component\<close>

section \<open>Type caster\<close>

text \<open>
  The two category dictionaries of \<^verbatim>\<open>cast_dtype\<close> are lists of items in insertion
  order, with distinct keys; \<^verbatim>\<open>d[key]\<close> is \<open>map_of d key\<close>. The loop visits the
  items of \<^verbatim>\<open>res_dict\<close> in this order.
\<close>

type_synonym type_dict = "(string \<times> string) list"

text \<open>
  \<^verbatim>\<open>df[key] = new\<close> for an existing label writes the new cells and storage type
  in place, at the position of each column of that label.
\<close>

fun setitem :: "'c dataframe \<Rightarrow> string \<Rightarrow> 'c column list \<Rightarrow> 'c dataframe" where
  "setitem [] key new = []"
| "setitem (c # df) key new =
     (if name c = key then
        (case new of
           [] \<Rightarrow> c # setitem df key []
         | n # ns \<Rightarrow> n\<lparr>name := key\<rparr> # setitem df key ns)
      else c # setitem df key new)"

text \<open>\<^verbatim>\<open>astype\<close> on a selection converts each selected column; the first failure raises.\<close>

fun astype_all :: "'v runtime \<Rightarrow> string \<Rightarrow> 'v column list \<Rightarrow> error + 'v column list" where
  "astype_all rt t [] = Inr []"
| "astype_all rt t (c # cs) =
     (case astype rt t c of
        Inl e \<Rightarrow> Inl e
      | Inr c' \<Rightarrow>
          (case astype_all rt t cs of
             Inl e \<Rightarrow> Inl e
           | Inr cs' \<Rightarrow> Inr (c' # cs')))"

text \<open>
  The body of the loop for one item \<^verbatim>\<open>key, res_dict[key]\<close>. \<^verbatim>\<open>pd.to_datetime\<close> on
  a selection of several columns tries to assemble dates from columns named year, month
  and day, which columns of one label cannot provide: ValueError.
\<close>

definition cast_key ::
  "'v runtime \<Rightarrow> 'v dataframe \<Rightarrow> type_dict \<Rightarrow> dict \<Rightarrow> string \<Rightarrow> string \<Rightarrow> error + 'v dataframe" where
  "cast_key rt df orig_dict dtype_map key r =
     (case map_of orig_dict key of
        None \<Rightarrow> Inl KeyError
      | Some p \<Rightarrow>
          if r \<noteq> p then
            (if r = ''Date'' then
               (case getitem df key of
                  Inl e \<Rightarrow> Inl e
                | Inr cs \<Rightarrow>
                    (case cs of
                       [c] \<Rightarrow>
                         (case to_datetime rt c of
                            Inl e \<Rightarrow> Inl e
                          | Inr c' \<Rightarrow> Inr (setitem df key [c']))
                     | _ \<Rightarrow> Inl ValueError))
             else
               (case getitem df key of
                  Inl e \<Rightarrow> Inl e
                | Inr cs \<Rightarrow>
                    (case dtype_map r of
                       None \<Rightarrow> Inl KeyError
                     | Some t \<Rightarrow>
                         (case astype_all rt t cs of
                            Inl e \<Rightarrow> Inl e
                          | Inr cs' \<Rightarrow> Inr (setitem df key cs')))))
          else Inr df)"

text \<open>
  The loop. The data frame is mutated in place, so an exception leaves it as the
  iterations before have written it: the loop returns the frame as it stands, and the
  exception if one was raised.
\<close>

fun cast_loop ::
  "'v runtime \<Rightarrow> type_dict \<Rightarrow> dict \<Rightarrow> type_dict \<Rightarrow> 'v dataframe \<Rightarrow> 'v dataframe \<times> error option" where
  "cast_loop rt orig_dict dtype_map [] df = (df, None)"
| "cast_loop rt orig_dict dtype_map ((key, r) # items) df =
     (case cast_key rt df orig_dict dtype_map key r of
        Inl e \<Rightarrow> (df, Some e)
      | Inr df' \<Rightarrow> cast_loop rt orig_dict dtype_map items df')"

text \<open>
  \<^verbatim>\<open>cast_dtype\<close>: the first component is the caller's data frame after the call, the
  second the exception, or the dictionary returned beside that frame
  (\<^verbatim>\<open>orig_dict = res_dict\<close>).
\<close>

definition cast_dtype ::
  "'v runtime \<Rightarrow> 'v dataframe \<Rightarrow> type_dict \<Rightarrow> type_dict \<Rightarrow> dict \<Rightarrow> 'v dataframe \<times> (error + type_dict)" where
  "cast_dtype rt df orig_dict res_dict dtype_map =
     (case cast_loop rt orig_dict dtype_map res_dict df of
        (df', Some e) \<Rightarrow> (df', Inl e)
      | (df', None) \<Rightarrow> (df', Inr res_dict))"

section \<open>Column encoder\<close>

text \<open>
  A numpy array of two dimensions is the list of its rows, with its element type. The
  encoders refuse an input of no rows, so every array below has a row and its number of
  columns is the length of a row.
\<close>

datatype ndarray = Int8Array "int list list" | Float64Array "real list list"

text \<open>\<^verbatim>\<open>encoded_column_name\<close> is a string or a list of strings.\<close>

datatype colname = Name string | Names "string list"

text \<open>
  \<^verbatim>\<open>df[x_column].values.reshape(-1, 1)\<close>: the cells of the selected column, one per
  row; a selection of several columns is flattened row by row.
\<close>

definition column_values :: "'v dataframe \<Rightarrow> string \<Rightarrow> error + 'v list" where
  "column_values df x_column =
     (case getitem df x_column of
        Inl e \<Rightarrow> Inl e
      | Inr cs \<Rightarrow> Inr (concat (transpose (map vals cs))))"

text \<open>
  \<^verbatim>\<open>encoder.categories_[0]\<close>: the distinct observed values in sorted order. The
  encoders sort the values, which must be comparable with each other: the cell type is a
  linear order.
\<close>

definition fitted_categories :: "'v::linorder list \<Rightarrow> 'v list" where
  "fitted_categories xs = sort (remdups xs)"

text \<open>
  \<^verbatim>\<open>OneHotEncoder(drop="first", sparse_output=False, dtype=np.int8).fit_transform\<close>:
  one indicator column for each category but the first; the fitted categories are
  returned beside the array.
\<close>

definition OneHotEncoder_fit_transform ::
  "'v::linorder runtime \<Rightarrow> 'v list \<Rightarrow> error + (int list list \<times> 'v list)" where
  "OneHotEncoder_fit_transform rt xs =
     (if xs = [] then Inl ValueError
      else case check_X rt xs of
        Some e \<Rightarrow> Inl e
      | None \<Rightarrow>
          Inr (map (\<lambda>x. map (\<lambda>c. if x = c then 1 else 0) (tl (fitted_categories xs))) xs,
               fitted_categories xs))"

definition one_hot_encoding ::
  "'v::linorder runtime \<Rightarrow> 'v dataframe \<Rightarrow> string \<Rightarrow> error + (ndarray \<times> colname)" where
  "one_hot_encoding rt df x_column =
     (case column_values df x_column of
        Inl e \<Rightarrow> Inl e
      | Inr xs \<Rightarrow>
          (case OneHotEncoder_fit_transform rt xs of
             Inl e \<Rightarrow> Inl e
           | Inr (encoded_column, cats) \<Rightarrow>
               Inr (Int8Array encoded_column,
                    Names (map (\<lambda>cat. x_column @ ''_one_hot_'' @ str rt cat) (tl cats)))))"

text \<open>
  \<^verbatim>\<open>type_of_target\<close> on the values the target encoder accepts: continuous for
  floating-point values that are not whole numbers, else multiclass for more than two
  distinct values, else binary.
\<close>

definition type_of_target :: "'v runtime \<Rightarrow> 'v list \<Rightarrow> target_type" where
  "type_of_target rt y =
     (if is_continuous rt y then Continuous
      else if length (remdups y) > 2 then Multiclass
      else Binary)"

text \<open>
  The fitted target encoder and its output; the fields are the attributes
  \<^verbatim>\<open>target_type_\<close> and \<^verbatim>\<open>classes_\<close> of the source. \<^verbatim>\<open>classes_\<close> is \<^verbatim>\<open>None\<close> for a
  continuous target, the sorted labels otherwise. The output has one column for a
  continuous or a binary target and one column per class for a multiclass target.

  \<^verbatim>\<open>fit_transform\<close> encodes each row from the other rows, over five folds (the default
  \<^verbatim>\<open>cv=5\<close>). The split raises ValueError on fewer than five rows; for a binary or
  multiclass target the folds are stratified, and the split raises ValueError when every
  class has fewer than five members.
\<close>

definition n_splits :: nat where
  "n_splits = 5"

record 'v target_encoder =
  encoded :: "real list list"
  fitted_target_type :: target_type
  fitted_classes :: "'v list option"

definition TargetEncoder_fit_transform ::
  "'v::linorder runtime \<Rightarrow> target_type \<Rightarrow> 'v list \<Rightarrow> 'v list \<Rightarrow> error + 'v target_encoder" where
  "TargetEncoder_fit_transform rt target_type X y =
     (if X = [] \<or> length X \<noteq> length y then Inl ValueError
      else case check_X rt X of
        Some e \<Rightarrow> Inl e
      | None \<Rightarrow>
          (let tt = (if target_type = Auto then type_of_target rt y else target_type);
               classes = (if tt = Continuous then None else Some (fitted_categories y))
           in case check_y rt tt y of
                Some e \<Rightarrow> Inl e
              | None \<Rightarrow>
                  if length X < n_splits then Inl ValueError
                  else if tt \<noteq> Continuous \<and>
                          list_all (\<lambda>c. count_list y c < n_splits) (fitted_categories y)
                  then Inl ValueError
                  else Inr \<lparr>encoded =
                              (if tt = Multiclass
                               then map (\<lambda>i. map (\<lambda>c. te_encoding rt X y i (Some c))
                                                (fitted_categories y))
                                      [0..<length X]
                               else map (\<lambda>i. [te_encoding rt X y i None]) [0..<length X]),
                            fitted_target_type = tt,
                            fitted_classes = classes\<rparr>))"

text \<open>
  \<^verbatim>\<open>y=df[target_column]\<close>: a selection of several columns is a target of two
  dimensions, which the encoder refuses with ValueError; the refusal is raised here, at
  the selection, ahead of the encoder's other checks.
\<close>

definition target_series :: "'v dataframe \<Rightarrow> string \<Rightarrow> error + 'v list" where
  "target_series df target_column =
     (case getitem df target_column of
        Inl e \<Rightarrow> Inl e
      | Inr cs \<Rightarrow> (case cs of [c] \<Rightarrow> Inr (vals c) | _ \<Rightarrow> Inl ValueError))"

text \<open>
  \<^verbatim>\<open>tartet_encoding\<close>. In the second branch a target found continuous has
  \<^verbatim>\<open>classes_ = None\<close>, and the comprehension over it raises TypeError.
\<close>

definition tartet_encoding ::
  "'v::linorder runtime \<Rightarrow> 'v dataframe \<Rightarrow> string \<Rightarrow> string \<Rightarrow> string \<Rightarrow> error + (ndarray \<times> colname)" where
  "tartet_encoding rt df x_column target_column coltype =
     (case column_values df x_column of
        Inl e \<Rightarrow> Inl e
      | Inr x \<Rightarrow>
          (case target_series df target_column of
             Inl e \<Rightarrow> Inl e
           | Inr y \<Rightarrow>
               if coltype = ''Numeric'' then
                 (case TargetEncoder_fit_transform rt Continuous x y of
                    Inl e \<Rightarrow> Inl e
                  | Inr encoder \<Rightarrow>
                      Inr (Float64Array (encoded encoder), Name (x_column @ ''_target'')))
               else
                 (case TargetEncoder_fit_transform rt Auto x y of
                    Inl e \<Rightarrow> Inl e
                  | Inr encoder \<Rightarrow>
                      if fitted_target_type encoder = Binary then
                        Inr (Float64Array (encoded encoder), Name (x_column @ ''_target''))
                      else
                        (case fitted_classes encoder of
                           None \<Rightarrow> Inl TypeError
                         | Some classes \<Rightarrow>
                             Inr (Float64Array (encoded encoder),
                                  Names (map (\<lambda>cat. x_column @ ''_target_'' @ str rt cat)
                                           classes))))))"

text \<open>
  \<^verbatim>\<open>OrdinalEncoder\<close>: one column holding the position of each value among the sorted
  categories, as a float.
\<close>

fun index_of :: "'a list \<Rightarrow> 'a \<Rightarrow> nat" where
  "index_of [] x = 0"
| "index_of (c # cs) x = (if c = x then 0 else Suc (index_of cs x))"

definition OrdinalEncoder_fit_transform ::
  "'v::linorder runtime \<Rightarrow> 'v list \<Rightarrow> error + real list list" where
  "OrdinalEncoder_fit_transform rt xs =
     (if xs = [] then Inl ValueError
      else case check_X rt xs of
        Some e \<Rightarrow> Inl e
      | None \<Rightarrow> Inr (map (\<lambda>x. [real (index_of (fitted_categories xs) x)]) xs))"

definition ordinal_encoding ::
  "'v::linorder runtime \<Rightarrow> 'v dataframe \<Rightarrow> string \<Rightarrow> error + (ndarray \<times> colname)" where
  "ordinal_encoding rt df x_column =
     (case column_values df x_column of
        Inl e \<Rightarrow> Inl e
      | Inr xs \<Rightarrow>
          (case OrdinalEncoder_fit_transform rt xs of
             Inl e \<Rightarrow> Inl e
           | Inr encoded_column \<Rightarrow>
               Inr (Float64Array encoded_column, Name (x_column @ ''_ordinal''))))"

text \<open>
  \<^verbatim>\<open>pd.DataFrame(array)\<close>: the columns of the array, labelled by their positions
  \<^verbatim>\<open>0, 1, ...\<close>; each is kept here as its storage type and its cells, the label being
  the position in the list.
\<close>

type_synonym 'c frame = "(string \<times> 'c list) list"

fun DataFrame :: "ndarray \<Rightarrow> 'v cell frame" where
  "DataFrame (Int8Array M) = map (\<lambda>col. (''int8'', map Int8 col)) (transpose M)"
| "DataFrame (Float64Array M) = map (\<lambda>col. (''float64'', map Float64 col)) (transpose M)"

text \<open>
  \<^verbatim>\<open>create_encoded_column\<close>. The chain of \<^verbatim>\<open>if\<close> and \<^verbatim>\<open>elif\<close> has no
  \<^verbatim>\<open>else\<close>: for any other strategy name \<^verbatim>\<open>encoded_column\<close> is never bound, and the
  \<^verbatim>\<open>return\<close> statement that reads it raises UnboundLocalError.
\<close>

definition create_encoded_column ::
  "'v::linorder runtime \<Rightarrow> string \<Rightarrow> string \<Rightarrow> 'v dataframe \<Rightarrow> string \<Rightarrow> string
     \<Rightarrow> error + ('v cell frame \<times> colname)" where
  "create_encoded_column rt encoding x_column df target_column y_type =
     (case (if encoding = ''One-Hot'' then
              (case one_hot_encoding rt df x_column of Inl e \<Rightarrow> Inl e | Inr r \<Rightarrow> Inr (Some r))
            else if encoding = ''Target'' then
              (case tartet_encoding rt df x_column target_column y_type of
                 Inl e \<Rightarrow> Inl e | Inr r \<Rightarrow> Inr (Some r))
            else if encoding = ''Ordinal'' then
              (case ordinal_encoding rt df x_column of Inl e \<Rightarrow> Inl e | Inr r \<Rightarrow> Inr (Some r))
            else Inr None) of
        Inl e \<Rightarrow> Inl e
      | Inr None \<Rightarrow> Inl UnboundLocalError
      | Inr (Some (encoded_column, encoded_column_name)) \<Rightarrow>
          Inr (DataFrame encoded_column, encoded_column_name))"

section \<open>Feature assembler\<close>

text \<open>
  The inner comprehension of \<^verbatim>\<open>create_model_df\<close>: the labels whose storage type maps
  to Numeric.
\<close>

fun numeric_cols :: "'c dataframe \<Rightarrow> dict \<Rightarrow> string list \<Rightarrow> error + string list" where
  "numeric_cols df dtype_map [] = Inr []"
| "numeric_cols df dtype_map (col1 # cols) =
     (case series_dtype df col1 of
        Inl e \<Rightarrow> Inl e
      | Inr d \<Rightarrow>
          (case dtype_map d of
             None \<Rightarrow> Inl KeyError
           | Some t \<Rightarrow>
               (case numeric_cols df dtype_map cols of
                  Inl e \<Rightarrow> Inl e
                | Inr rest \<Rightarrow> Inr (if t = ''Numeric'' then col1 # rest else rest))))"

text \<open>The outer comprehension: \<^verbatim>\<open>[df[col] for col in ...]\<close>.\<close>

fun select_cols :: "'c dataframe \<Rightarrow> string list \<Rightarrow> error + 'c column list list" where
  "select_cols df [] = Inr []"
| "select_cols df (col # cols) =
     (case getitem df col of
        Inl e \<Rightarrow> Inl e
      | Inr cs \<Rightarrow>
          (case select_cols df cols of
             Inl e \<Rightarrow> Inl e
           | Inr rest \<Rightarrow> Inr (cs # rest)))"

text \<open>
  \<^verbatim>\<open>pd.concat(objs, axis=1)\<close> puts the columns of the objects side by side; it raises
  ValueError on an empty list. The rows of the objects are matched by their row index;
  the frames built from an encoder's array are numbered \<^verbatim>\<open>0, 1, ...\<close> as the dataset
  is, so the columns stand side by side with the rows unchanged.
\<close>

definition pd_concat :: "'c column list list \<Rightarrow> error + 'c dataframe" where
  "pd_concat objs = (if objs = [] then Inl ValueError else Inr (concat objs))"

text \<open>
  \<^verbatim>\<open>encoded_col.columns = labels\<close> raises ValueError when the number of labels is not
  the number of columns.
\<close>

definition set_columns :: "'c frame \<Rightarrow> string list \<Rightarrow> error + 'c dataframe" where
  "set_columns encoded_col labels =
     (if length labels \<noteq> length encoded_col then Inl ValueError
      else Inr (map (\<lambda>(label, (d, vs)). \<lparr>name = label, dtype = d, vals = vs\<rparr>)
                  (zip labels encoded_col)))"

text \<open>
  The loop over the rows of \<^verbatim>\<open>res_df\<close>; a row is the pair of its \<^verbatim>\<open>Variable\<close> and
  its \<^verbatim>\<open>Encoding\<close>.
\<close>

fun encode_rows ::
  "'v::linorder runtime \<Rightarrow> 'v dataframe \<Rightarrow> string \<Rightarrow> string \<Rightarrow> (string \<times> string) list
     \<Rightarrow> 'v cell dataframe \<Rightarrow> error + 'v cell dataframe" where
  "encode_rows rt df target_var y_type [] model_df = Inr model_df"
| "encode_rows rt df target_var y_type ((variable, encoding) # rows) model_df =
     (case create_encoded_column rt encoding variable df target_var y_type of
        Inl e \<Rightarrow> Inl e
      | Inr (encoded_col, encoded_colname) \<Rightarrow>
          (case set_columns encoded_col
                  (case encoded_colname of Name s \<Rightarrow> [s] | Names ss \<Rightarrow> ss) of
             Inl e \<Rightarrow> Inl e
           | Inr cols \<Rightarrow>
               (case pd_concat [model_df, cols] of
                  Inl e \<Rightarrow> Inl e
                | Inr model_df' \<Rightarrow> encode_rows rt df target_var y_type rows model_df')))"

definition as_cells :: "'v column \<Rightarrow> 'v cell column" where
  "as_cells c = \<lparr>name = name c, dtype = dtype c, vals = map Cell (vals c)\<rparr>"

definition create_model_df ::
  "'v::linorder runtime \<Rightarrow> (string \<times> string) list \<Rightarrow> 'v dataframe \<Rightarrow> string \<Rightarrow> string \<Rightarrow> dict
     \<Rightarrow> error + 'v cell dataframe" where
  "create_model_df rt res_df df target_var y_type dtype_map =
     (case numeric_cols df dtype_map (map name df) of
        Inl e \<Rightarrow> Inl e
      | Inr cols \<Rightarrow>
          (case select_cols df cols of
             Inl e \<Rightarrow> Inl e
           | Inr objs \<Rightarrow>
               (case pd_concat (map (map as_cells) objs) of
                  Inl e \<Rightarrow> Inl e
                | Inr model_df \<Rightarrow>
                    (case encode_rows rt df target_var y_type res_df model_df of
                       Inl e \<Rightarrow> Inl e
                     | Inr model_df' \<Rightarrow>
                         Inr (if target_var \<in> set (map name model_df')
                              then filter (\<lambda>c. name c \<noteq> target_var) model_df'
                              else model_df')))))"

section \<open>Dimensionality reducer\<close>

text \<open>Python's \<^verbatim>\<open>str\<close> on a natural number, for \<^verbatim>\<open>f'PC{i+1}'\<close>.\<close>

fun str_nat :: "nat \<Rightarrow> string" where
  "str_nat n =
     (if n < 10 then [''0123456789'' ! n]
      else str_nat (n div 10) @ [''0123456789'' ! (n mod 10)])"

text \<open>
  \<^verbatim>\<open>Pipeline([scaler, PCA(n_components=n_comp)]).fit_transform(df)\<close>. The scaler
  refuses a frame of no rows or no columns. With an integer \<^verbatim>\<open>n_components\<close> the
  decomposition refuses, with ValueError, a number that is not between 0 and
  \<^verbatim>\<open>min(n_samples, n_features)\<close>. The result has one row per sample and one column per
  component.
\<close>

definition n_features :: "'c dataframe \<Rightarrow> nat" where
  "n_features df = length df"

definition n_samples :: "'c dataframe \<Rightarrow> nat" where
  "n_samples df = (case df of [] \<Rightarrow> 0 | c # _ \<Rightarrow> length (vals c))"

definition Pipeline_fit_transform ::
  "'v runtime \<Rightarrow> int \<Rightarrow> 'v cell dataframe \<Rightarrow> error + real list list" where
  "Pipeline_fit_transform rt n_comp df =
     (if n_features df = 0 \<or> n_samples df = 0 then Inl ValueError
      else case pca_check rt df of
        Some e \<Rightarrow> Inl e
      | None \<Rightarrow>
          if \<not> (0 \<le> n_comp \<and> n_comp \<le> int (min (n_samples df) (n_features df)))
          then Inl ValueError
          else Inr (map (\<lambda>i. map (\<lambda>j. pca_score rt df (nat n_comp) i j) [0..<nat n_comp])
                      [0..<n_samples df]))"

text \<open>
  \<^verbatim>\<open>pd.DataFrame(data=array, columns=labels)\<close> raises ValueError when the number of
  labels is not the number of columns of the array.
\<close>

definition DataFrame_columns :: "real list list \<Rightarrow> string list \<Rightarrow> error + real dataframe" where
  "DataFrame_columns data labels =
     (if length labels \<noteq> (case data of [] \<Rightarrow> 0 | row # _ \<Rightarrow> length row) then Inl ValueError
      else Inr (map (\<lambda>(label, col). \<lparr>name = label, dtype = ''float64'', vals = col\<rparr>)
                  (zip labels (transpose data))))"

definition create_pca_after ::
  "'v runtime \<Rightarrow> 'v cell dataframe \<Rightarrow> int \<Rightarrow> error + real dataframe" where
  "create_pca_after rt df n_comp =
     (case Pipeline_fit_transform rt n_comp df of
        Inl e \<Rightarrow> Inl e
      | Inr principal_components \<Rightarrow>
          DataFrame_columns principal_components
            (map (\<lambda>i. ''PC'' @ str_nat (i + 1)) [0..<nat n_comp]))"







section \<open>An instance of the parameters, and example data\<close>

text \<open>
  To run the definitions on examples the parameters need values. Cells are integers
  or strings; a column that mixes both is refused by the encoders, as Python cannot
  compare an integer with a string. The order puts integers before strings only to make
  the cell type a linear order; it is never consulted on a column that is accepted.
\<close>

datatype val = IntVal int | StrVal string

instantiation val :: linorder
begin

fun less_eq_val :: "val \<Rightarrow> val \<Rightarrow> bool" where
  "less_eq_val (IntVal a) (IntVal b) = (a \<le> b)"
| "less_eq_val (IntVal a) (StrVal t) = True"
| "less_eq_val (StrVal s) (IntVal b) = False"
| "less_eq_val (StrVal s) (StrVal t) = (s \<le> t)"

definition less_val :: "val \<Rightarrow> val \<Rightarrow> bool" where
  "less_val a b = (a \<le> b \<and> \<not> b \<le> a)"

instance
proof
  fix x y z :: val
  show "(x < y) = (x \<le> y \<and> \<not> y \<le> x)" by (simp add: less_val_def)
  show "x \<le> x" by (cases x) auto
  show "x \<le> y \<Longrightarrow> y \<le> z \<Longrightarrow> x \<le> z" by (cases x; cases y; cases z) auto
  show "x \<le> y \<Longrightarrow> y \<le> x \<Longrightarrow> x = y" by (cases x; cases y) auto
  show "x \<le> y \<or> y \<le> x" by (cases x; cases y) auto
qed

end

fun str_int :: "int \<Rightarrow> string" where
  "str_int i = (if i < 0 then CHR ''-'' # str_nat (nat (- i)) else str_nat (nat i))"

definition is_int :: "val \<Rightarrow> bool" where
  "is_int v = (case v of IntVal _ \<Rightarrow> True | StrVal _ \<Rightarrow> False)"

text \<open>
  In this instance a conversion to a numeric storage type or to a date accepts integer
  cells only (text is not parsed) and any other conversion keeps the cells. The target
  encoder refuses a target that mixes integers and strings, and text as a continuous
  target. No target is found continuous, there being no floating-point cell. The
  statistics of the target encoder and the scores of the decomposition are random or
  floating-point results and stand as 0; no statement below depends on them. The
  explained variance ratios are \<^verbatim>\<open>nan\<close> when every column is constant (the total
  variance the ratio divides by is zero) and equal shares otherwise, as they are for
  columns that are not correlated.
\<close>

definition py :: "val runtime" where
  "py = \<lparr>str = (\<lambda>v. case v of IntVal i \<Rightarrow> str_int i | StrVal s \<Rightarrow> s),
         to_datetime = (\<lambda>c. if list_all is_int (vals c) then Inr (c\<lparr>dtype := ''datetime64[ns]''\<rparr>)
                             else Inl ValueError),
         astype = (\<lambda>t c. if (t = ''int64'' \<or> t = ''float64'') \<and> \<not> list_all is_int (vals c)
                          then Inl ValueError else Inr (c\<lparr>dtype := t\<rparr>)),
         check_X = (\<lambda>xs. if list_all is_int xs \<or> list_all (\<lambda>v. \<not> is_int v) xs then None
                          else Some TypeError),
         check_y = (\<lambda>tt y. if \<not> (list_all is_int y \<or> list_all (\<lambda>v. \<not> is_int v) y)
                             then Some TypeError
                             else if tt = Continuous \<and> \<not> list_all is_int y then Some ValueError
                             else None),
         is_continuous = (\<lambda>y. False),
         te_encoding = (\<lambda>X y i c. 0),
         pca_check = (\<lambda>df. if list_all (\<lambda>c. list_all (\<lambda>x. case x of Cell (StrVal _) \<Rightarrow> False
                                                                      | _ \<Rightarrow> True) (vals c)) df
                            then None else Some ValueError),
         pca_score = (\<lambda>df k i j. 0),
         pca_ratio = (\<lambda>df i. if list_all (\<lambda>c. length (remdups (vals c)) \<le> 1) df then NaN
                               else Finite (1 / real (min (n_samples df) (n_features df))))\<rparr>"

text \<open>The map of \<^verbatim>\<open>load_data\<close>, from storage types to categories.\<close>

definition dtype_map_inverse :: dict where
  "dtype_map_inverse =
     [''float64'' \<mapsto> ''Numeric'', ''category'' \<mapsto> ''Categorical'',
      ''object'' \<mapsto> ''Categorical'', ''int64'' \<mapsto> ''Numeric'',
      ''datetime64[ns]'' \<mapsto> ''Date'']"

text \<open>A map from categories to the storage type a cast converts to.\<close>

definition dtype_map :: dict where
  "dtype_map = [''Numeric'' \<mapsto> ''float64'', ''Categorical'' \<mapsto> ''category'']"

definition people :: "val dataframe" where
  "people =
     [\<lparr>name = ''age'', dtype = ''int64'', vals = [IntVal 31, IntVal 45, IntVal 27]\<rparr>,
      \<lparr>name = ''city'', dtype = ''object'', vals = [StrVal ''B'', StrVal ''A'', StrVal ''C'']\<rparr>,
      \<lparr>name = ''weight'', dtype = ''int64'', vals = [IntVal 70, IntVal 82, IntVal 64]\<rparr>]"

definition people_types :: type_dict where
  "people_types = [(''age'', ''Numeric''), (''city'', ''Categorical''), (''weight'', ''Numeric'')]"

definition drinkers :: "val dataframe" where
  "drinkers =
     [\<lparr>name = ''city'', dtype = ''object'',
       vals = [StrVal ''B'', StrVal ''A'', StrVal ''C'', StrVal ''A'', StrVal ''B'', StrVal ''C'']\<rparr>,
      \<lparr>name = ''eight'', dtype = ''object'',
       vals = [StrVal ''x'', StrVal ''y'', StrVal ''x'', StrVal ''y'', StrVal ''x'', StrVal ''y'']\<rparr>,
      \<lparr>name = ''smoker'', dtype = ''object'',
       vals = [StrVal ''no'', StrVal ''yes'', StrVal ''no'', StrVal ''no'', StrVal ''yes'', StrVal ''no'']\<rparr>,
      \<lparr>name = ''level'', dtype = ''object'',
       vals = [StrVal ''low'', StrVal ''mid'', StrVal ''high'', StrVal ''low'', StrVal ''mid'', StrVal ''high'']\<rparr>,
      \<lparr>name = ''weight'', dtype = ''float64'',
       vals = [IntVal 70, IntVal 82, IntVal 64, IntVal 91, IntVal 58, IntVal 77]\<rparr>]"

text \<open>A dataset of fifteen rows, in which every class of each column has five members or more.\<close>

definition survey :: "val dataframe" where
  "survey =
     [\<lparr>name = ''city'', dtype = ''object'',
       vals = [StrVal ''B'', StrVal ''A'', StrVal ''C'', StrVal ''A'', StrVal ''B'',
               StrVal ''C'', StrVal ''A'', StrVal ''B'', StrVal ''C'', StrVal ''B'',
               StrVal ''A'', StrVal ''C'', StrVal ''B'', StrVal ''A'', StrVal ''C'']\<rparr>,
      \<lparr>name = ''smoker'', dtype = ''object'',
       vals = [StrVal ''no'', StrVal ''yes'', StrVal ''no'', StrVal ''no'', StrVal ''yes'',
               StrVal ''yes'', StrVal ''no'', StrVal ''yes'', StrVal ''no'', StrVal ''yes'',
               StrVal ''no'', StrVal ''yes'', StrVal ''no'', StrVal ''yes'', StrVal ''no'']\<rparr>,
      \<lparr>name = ''level'', dtype = ''object'',
       vals = [StrVal ''low'', StrVal ''mid'', StrVal ''high'', StrVal ''mid'', StrVal ''low'',
               StrVal ''high'', StrVal ''high'', StrVal ''low'', StrVal ''mid'', StrVal ''low'',
               StrVal ''high'', StrVal ''mid'', StrVal ''mid'', StrVal ''high'', StrVal ''low'']\<rparr>]"



text \<open>\<open>people\<close> after the cast of \<^verbatim>\<open>age\<close> to a category.\<close>

definition people_age_cast :: "val dataframe" where
  "people_age_cast =
     [\<lparr>name = ''age'', dtype = ''category'', vals = [IntVal 31, IntVal 45, IntVal 27]\<rparr>,
      \<lparr>name = ''city'', dtype = ''object'', vals = [StrVal ''B'', StrVal ''A'', StrVal ''C'']\<rparr>,
      \<lparr>name = ''weight'', dtype = ''int64'', vals = [IntVal 70, IntVal 82, IntVal 64]\<rparr>]"

text \<open>The feature matrix of \<open>people\<close> for the target \<^verbatim>\<open>weight\<close>, city encoded one-hot.\<close>

definition people_features :: "val cell dataframe" where
  "people_features =
     [\<lparr>name = ''age'', dtype = ''int64'',
       vals = [Cell (IntVal 31), Cell (IntVal 45), Cell (IntVal 27)]\<rparr>,
      \<lparr>name = ''city_one_hot_B'', dtype = ''int8'', vals = [Int8 1, Int8 0, Int8 0]\<rparr>,
      \<lparr>name = ''city_one_hot_C'', dtype = ''int8'', vals = [Int8 0, Int8 0, Int8 1]\<rparr>]"

section \<open>The type classifier returns one category per column\<close>

lemma lookup_all_Inr:
  "(\<forall>a\<in>set as. m a \<noteq> None) \<Longrightarrow> lookup_all m as = Inr (map (\<lambda>a. the (m a)) as)"
  by (induction as) auto

lemma lookup_all_Inl:
  "lookup_all m as = Inl e \<Longrightarrow> e = KeyError \<and> (\<exists>a\<in>set as. m a = None)"
  by (induction as) (auto split: option.splits sum.splits)

lemma lookup_all_Inr_dom:
  "lookup_all m as = Inr ts \<Longrightarrow> a \<in> set as \<Longrightarrow> m a \<noteq> None"
  by (induction as arbitrary: ts) (auto split: option.splits sum.splits)

lemma lookup_all_fails_iff:
  "(lookup_all m as = Inl KeyError) = (\<exists>a\<in>set as. m a = None)"
proof
  assume "lookup_all m as = Inl KeyError"
  then show "\<exists>a\<in>set as. m a = None" by (auto dest: lookup_all_Inl)
next
  assume ex: "\<exists>a\<in>set as. m a = None"
  show "lookup_all m as = Inl KeyError"
  proof (cases "lookup_all m as")
    case (Inl e)
    then show ?thesis by (auto dest: lookup_all_Inl)
  next
    case (Inr ts)
    with ex show ?thesis by (auto dest: lookup_all_Inr_dom)
  qed
qed

text \<open>
  Claim C8. \<^verbatim>\<open>create_type_df\<close> raises exactly when the storage type of some column
  is absent from the type map. When the type map covers every storage type of the
  dataset it returns a table with one row per column, in column order: the column's label
  and the category its storage type maps to. A type map sends storage types to the three
  categories Numeric, Categorical and Date, and then so is every category of the table.
\<close>

theorem create_type_df_classifies:
  "((\<exists>e. create_type_df df M = Inl e) = (\<exists>c\<in>set df. M (dtype c) = None)) \<and>
   ((\<forall>c\<in>set df. M (dtype c) \<noteq> None) \<longrightarrow>
      (\<exists>t. create_type_df df M = Inr t \<and>
           Variable t = map name df \<and>
           Type t = map (\<lambda>c. the (M (dtype c))) df \<and>
           length (Type t) = length df \<and>
           (ran M \<subseteq> {''Numeric'', ''Categorical'', ''Date''} \<longrightarrow>
              set (Type t) \<subseteq> {''Numeric'', ''Categorical'', ''Date''})))"
proof (intro conjI impI)
  show "(\<exists>e. create_type_df df M = Inl e) = (\<exists>c\<in>set df. M (dtype c) = None)"
  proof
    assume "\<exists>e. create_type_df df M = Inl e"
    then obtain e where "lookup_all M (map dtype df) = Inl e"
      by (auto simp: create_type_df_def split: sum.splits)
    then have "\<exists>a\<in>set (map dtype df). M a = None"
      by (blast dest: lookup_all_Inl)
    then show "\<exists>c\<in>set df. M (dtype c) = None"
      by auto
  next
    assume "\<exists>c\<in>set df. M (dtype c) = None"
    then have "\<exists>a\<in>set (map dtype df). M a = None" by auto
    then have "lookup_all M (map dtype df) = Inl KeyError"
      by (simp only: lookup_all_fails_iff)
    then show "\<exists>e. create_type_df df M = Inl e"
      by (simp add: create_type_df_def)
  qed
next
  assume cov: "\<forall>c\<in>set df. M (dtype c) \<noteq> None"
  then have "\<forall>a\<in>set (map dtype df). M a \<noteq> None" by auto
  then have l: "lookup_all M (map dtype df) = Inr (map (\<lambda>a. the (M a)) (map dtype df))"
    by (rule lookup_all_Inr)
  have r: "ran M \<subseteq> {''Numeric'', ''Categorical'', ''Date''} \<longrightarrow>
        set (map (\<lambda>c. the (M (dtype c))) df) \<subseteq> {''Numeric'', ''Categorical'', ''Date''}"
  proof
    assume rn: "ran M \<subseteq> {''Numeric'', ''Categorical'', ''Date''}"
    show "set (map (\<lambda>c. the (M (dtype c))) df) \<subseteq> {''Numeric'', ''Categorical'', ''Date''}"
    proof
      fix x assume "x \<in> set (map (\<lambda>c. the (M (dtype c))) df)"
      then obtain c where c: "c \<in> set df" "x = the (M (dtype c))" by auto
      with cov obtain y where "M (dtype c) = Some y" by auto
      with c have "x \<in> ran M" by (auto simp: ran_def)
      with rn show "x \<in> {''Numeric'', ''Categorical'', ''Date''}" by blast
    qed
  qed
  show "\<exists>t. create_type_df df M = Inr t \<and>
           Variable t = map name df \<and>
           Type t = map (\<lambda>c. the (M (dtype c))) df \<and>
           length (Type t) = length df \<and>
           (ran M \<subseteq> {''Numeric'', ''Categorical'', ''Date''} \<longrightarrow>
              set (Type t) \<subseteq> {''Numeric'', ''Categorical'', ''Date''})"
    using l r by (simp add: create_type_df_def comp_def)
qed

text \<open>
  The example: the three columns of \<open>people\<close> under the map of \<^verbatim>\<open>load_data\<close>, and
  the same dataset under the empty map, which covers no storage type.
\<close>

lemma ran_dtype_map_inverse:
  "ran dtype_map_inverse \<subseteq> {''Numeric'', ''Categorical'', ''Date''}"
  by (auto simp: ran_def dtype_map_inverse_def split: if_splits)

theorem create_type_df_classifies_witness:
  "list_all (\<lambda>c. dtype_map_inverse (dtype c) \<noteq> None) people \<and>
   ran dtype_map_inverse \<subseteq> {''Numeric'', ''Categorical'', ''Date''} \<and>
   create_type_df people dtype_map_inverse =
     Inr \<lparr>Variable = [''age'', ''city'', ''weight''],
          Type = [''Numeric'', ''Categorical'', ''Numeric'']\<rparr> \<and>
   \<not> (\<exists>e. create_type_df people dtype_map_inverse = Inl e) \<and>
   (\<exists>e. create_type_df people Map.empty = Inl e)"
proof -
  have cov: "\<forall>c\<in>set people. dtype_map_inverse (dtype c) \<noteq> None"
    by (simp add: people_def dtype_map_inverse_def)
  have uncov: "\<exists>c\<in>set people. Map.empty (dtype c) = None"
    by (auto simp: people_def)
  have val: "create_type_df people dtype_map_inverse =
     Inr \<lparr>Variable = [''age'', ''city'', ''weight''],
          Type = [''Numeric'', ''Categorical'', ''Numeric'']\<rparr>"
    by (simp add: create_type_df_def people_def dtype_map_inverse_def)
  show ?thesis
    unfolding list_all_iff
    using cov uncov val ran_dtype_map_inverse
      create_type_df_classifies [of people dtype_map_inverse]
      create_type_df_classifies [of people Map.empty]
    by simp
qed

section \<open>Encodable columns and the name of the target\<close>

lemma str_contains_sublist: "str_contains hay needle = sublist needle hay"
  by (induction hay) (auto simp: sublist_Cons_right)

lemma filter_name_distinct:
  "distinct (map name df) \<Longrightarrow> c \<in> set df \<Longrightarrow> filter (\<lambda>c'. name c' = name c) df = [c]"
proof (induction df)
  case Nil then show ?case by simp
next
  case (Cons a df)
  show ?case
  proof (cases "a = c")
    case True
    with Cons.prems have "name c \<notin> name ` set df" by simp
    then have "\<forall>c'\<in>set df. name c' \<noteq> name c" by (metis imageI)
    then have "filter (\<lambda>c'. name c' = name c) df = []" by (simp add: filter_empty_conv)
    with True show ?thesis by simp
  next
    case False
    with Cons.prems have cin: "c \<in> set df" by simp
    with Cons.prems have "name a \<noteq> name c" by auto
    with Cons.IH Cons.prems cin show ?thesis by simp
  qed
qed

lemma series_dtype_distinct:
  "distinct (map name df) \<Longrightarrow> c \<in> set df \<Longrightarrow> series_dtype df (name c) = Inr (dtype c)"
  by (simp add: series_dtype_def getitem_def filter_name_distinct)

lemma valid_cols_distinct:
  assumes "distinct (map name df)" and "\<forall>c\<in>set df. M (dtype c) \<noteq> None"
  shows "set cs \<subseteq> set df \<Longrightarrow>
         valid_cols df tv M (map name cs) =
           Inr (map name (filter (\<lambda>c. M (dtype c) = Some ''Categorical'' \<and> \<not> sublist (name c) tv) cs))"
proof (induction cs)
  case Nil then show ?case by simp
next
  case (Cons c cs)
  then have cin: "c \<in> set df" and sub: "set cs \<subseteq> set df" by auto
  from assms(2) cin obtain t where t: "M (dtype c) = Some t" by auto
  show ?case
    using Cons.IH[OF sub] series_dtype_distinct[OF assms(1) cin] t
    by (simp add: str_contains_sublist)
qed

text \<open>
  Claim C10. On a dataset with distinct column labels whose storage types the type map
  covers, \<^verbatim>\<open>find_valid_cols\<close> returns the labels of the categorical columns whose
  label is not a contiguous substring of the target's name: a categorical column is left
  out exactly when its label occurs inside the target's name, whether or not it equals
  it.
\<close>

theorem find_valid_cols_excludes_substrings:
  assumes "distinct (map name df)" and "\<forall>c\<in>set df. M (dtype c) \<noteq> None"
  shows "\<exists>cols. find_valid_cols df target_var M = Inr cols \<and>
           cols = map name (filter (\<lambda>c. M (dtype c) = Some ''Categorical'' \<and>
                                        \<not> sublist (name c) target_var) df) \<and>
           (\<forall>c\<in>set df. M (dtype c) = Some ''Categorical'' \<longrightarrow>
              (name c \<notin> set cols) = sublist (name c) target_var)"
proof -
  let ?Q = "\<lambda>c. M (dtype c) = Some ''Categorical'' \<and> \<not> sublist (name c) target_var"
  have r: "find_valid_cols df target_var M = Inr (map name (filter ?Q df))"
    unfolding find_valid_cols_def using valid_cols_distinct[OF assms, of df target_var] by simp
  have inj: "inj_on name (set df)"
    using assms(1) by (simp add: distinct_map)
  have "\<forall>c\<in>set df. M (dtype c) = Some ''Categorical'' \<longrightarrow>
              (name c \<notin> set (map name (filter ?Q df))) = sublist (name c) target_var"
  proof (intro ballI impI)
    fix c assume c: "c \<in> set df" and cat: "M (dtype c) = Some ''Categorical''"
    have "(name c \<in> set (map name (filter ?Q df))) = ?Q c"
    proof
      assume "name c \<in> set (map name (filter ?Q df))"
      then obtain c' where c': "c' \<in> set df" "?Q c'" "name c' = name c" by auto
      with inj c have "c' = c" by (auto dest: inj_onD)
      with c' show "?Q c" by simp
    next
      assume "?Q c"
      with c show "name c \<in> set (map name (filter ?Q df))" by auto
    qed
    with cat show "(name c \<notin> set (map name (filter ?Q df))) = sublist (name c) target_var"
      by simp
  qed
  with r show ?thesis by simp
qed

text \<open>
  The example: with the target \<^verbatim>\<open>weight\<close>, the categorical column \<^verbatim>\<open>eight\<close> is
  left out too.
\<close>

theorem find_valid_cols_excludes_substrings_witness:
  "distinct (map name drinkers) \<and>
   list_all (\<lambda>c. dtype_map_inverse (dtype c) \<noteq> None) drinkers \<and>
   find_valid_cols drinkers ''weight'' dtype_map_inverse = Inr [''city'', ''smoker'', ''level''] \<and>
   sublist ''eight'' ''weight'' \<and> ''eight'' \<noteq> ''weight''"
proof -
  have d: "distinct (map name drinkers)"
    by (simp add: drinkers_def)
  have cov: "\<forall>c\<in>set drinkers. dtype_map_inverse (dtype c) \<noteq> None"
    by (simp add: drinkers_def dtype_map_inverse_def)
  have s: "sublist ''eight'' ''weight''"
    by (simp add: sublist_Cons_right)
  have v: "find_valid_cols drinkers ''weight'' dtype_map_inverse = Inr [''city'', ''smoker'', ''level'']"
    by (simp add: find_valid_cols_def drinkers_def dtype_map_inverse_def series_dtype_def getitem_def)
  show ?thesis
    unfolding list_all_iff
    using d cov s v find_valid_cols_excludes_substrings [OF d cov, of "''weight''"]
    by simp
qed

section \<open>The feature matrix has no column of the target's name\<close>

text \<open>
  Claim C1. Whatever the dataset, the encoding specification, the target and the type
  map, a feature matrix returned by \<^verbatim>\<open>create_model_df\<close> has no column labelled with
  the target's name.
\<close>

theorem create_model_df_drops_target:
  "create_model_df rt res_df df target_var y_type M = Inr model_df \<Longrightarrow>
   target_var \<notin> set (map name model_df)"
  by (auto simp: create_model_df_def split: sum.splits if_splits)

text \<open>
  The example: age, city and weight, target weight, city encoded one-hot.
\<close>

theorem create_model_df_drops_target_witness:
  "create_model_df py [(''city'', ''One-Hot'')] people ''weight'' ''Numeric'' dtype_map_inverse =
     Inr [\<lparr>name = ''age'', dtype = ''int64'',
             vals = [Cell (IntVal 31), Cell (IntVal 45), Cell (IntVal 27)]\<rparr>,
          \<lparr>name = ''city_one_hot_B'', dtype = ''int8'', vals = [Int8 1, Int8 0, Int8 0]\<rparr>,
          \<lparr>name = ''city_one_hot_C'', dtype = ''int8'', vals = [Int8 0, Int8 0, Int8 1]\<rparr>] \<and>
   ''weight'' \<notin> set [''age'', ''city_one_hot_B'', ''city_one_hot_C'']"
proof -
  have v: "create_model_df py [(''city'', ''One-Hot'')] people ''weight'' ''Numeric'' dtype_map_inverse =
     Inr [\<lparr>name = ''age'', dtype = ''int64'',
             vals = [Cell (IntVal 31), Cell (IntVal 45), Cell (IntVal 27)]\<rparr>,
          \<lparr>name = ''city_one_hot_B'', dtype = ''int8'', vals = [Int8 1, Int8 0, Int8 0]\<rparr>,
          \<lparr>name = ''city_one_hot_C'', dtype = ''int8'', vals = [Int8 0, Int8 0, Int8 1]\<rparr>]"
    by code_simp
  show ?thesis
    using v create_model_df_drops_target [OF v] by simp
qed

section \<open>An unknown strategy name\<close>

text \<open>
  Claim C4. For a strategy name other than One-Hot, Ordinal and Target,
  \<^verbatim>\<open>create_encoded_column\<close> raises at once, whatever its other arguments: no encoder
  runs and nothing is returned. The exception is Python's UnboundLocalError, which is
  what the specification calls UnknownEncodingStrategy. The loop of
  \<^verbatim>\<open>create_model_df\<close> passes it on at the row that names the strategy, without
  visiting the rows after it.
\<close>

theorem create_encoded_column_unknown_strategy:
  assumes "encoding \<notin> {''One-Hot'', ''Ordinal'', ''Target''}"
  shows "create_encoded_column rt encoding x_column df target_column y_type = Inl UnboundLocalError \<and>
         encode_rows rt df target_column y_type ((x_column, encoding) # rows) model_df
           = Inl UnboundLocalError"
  using assms by (simp add: create_encoded_column_def)

text \<open>The example: the strategy name \<^verbatim>\<open>Binary\<close>.\<close>

theorem create_encoded_column_unknown_strategy_witness:
  "''Binary'' \<notin> {''One-Hot'', ''Ordinal'', ''Target''} \<and>
   create_encoded_column py ''Binary'' ''city'' people ''weight'' ''Numeric'' = Inl UnboundLocalError \<and>
   encode_rows py people ''weight'' ''Numeric'' [(''city'', ''Binary''), (''city'', ''One-Hot'')] []
     = Inl UnboundLocalError"
proof -
  have h: "''Binary'' \<notin> {''One-Hot'', ''Ordinal'', ''Target''}" by simp
  show ?thesis
    using h create_encoded_column_unknown_strategy [OF h, of py "''city''" people "''weight''" "''Numeric''" "[(''city'', ''One-Hot'')]" "[]"]
    by simp
qed

section \<open>One-hot encoding\<close>

lemma indicator_sum_notin:
  "x \<notin> set cs \<Longrightarrow> sum_list (map (\<lambda>c. if x = c then 1 else (0::int)) cs) = 0"
  by (induction cs) auto

lemma indicator_sum_distinct:
  "distinct cs \<Longrightarrow> sum_list (map (\<lambda>c. if x = c then 1 else (0::int)) cs) \<le> 1"
  by (induction cs) (auto simp: indicator_sum_notin)

lemma fitted_categories_eq: "fitted_categories xs = sorted_list_of_set (set xs)"
  by (simp add: fitted_categories_def sorted_list_of_set_sort_remdups)

lemma length_fitted_categories: "length (fitted_categories xs) = card (set xs)"
  by (simp add: fitted_categories_def length_remdups_card_conv)

lemma distinct_fitted_categories: "distinct (fitted_categories xs)"
  by (simp add: fitted_categories_def)

text \<open>
  Claim C3. On a source column that has a row and that the encoder accepts,
  \<^verbatim>\<open>one_hot_encoding\<close> returns, for the \<open>k\<close> distinct values of the column, the
  \<open>k - 1\<close> names \<^verbatim>\<open><col>_one_hot_<category>\<close> of the sorted categories but the
  first, and an array with one row per row of the column: every row has \<open>k - 1\<close>
  entries, each 0 or 1, and they sum to at most 1.
\<close>

theorem one_hot_encoding_columns:
  assumes "column_values df x_column = Inr xs" and "xs \<noteq> []" and "check_X rt xs = None"
  shows "\<exists>M names. one_hot_encoding rt df x_column = Inr (Int8Array M, Names names) \<and>
           names = map (\<lambda>cat. x_column @ ''_one_hot_'' @ str rt cat)
                     (tl (sorted_list_of_set (set xs))) \<and>
           length names = card (set xs) - 1 \<and>
           length M = length xs \<and>
           (\<forall>row\<in>set M. length row = card (set xs) - 1 \<and> set row \<subseteq> {0, 1} \<and>
                          sum_list row \<le> 1)"
proof -
  let ?cs = "tl (fitted_categories xs)"
  let ?M = "map (\<lambda>x. map (\<lambda>c. if x = c then 1 else (0::int)) ?cs) xs"
  have r: "one_hot_encoding rt df x_column =
             Inr (Int8Array ?M, Names (map (\<lambda>cat. x_column @ ''_one_hot_'' @ str rt cat) ?cs))"
    using assms by (simp add: one_hot_encoding_def OneHotEncoder_fit_transform_def)
  have len: "length ?cs = card (set xs) - 1"
    by (simp add: length_fitted_categories)
  have dist: "distinct ?cs"
    by (simp add: distinct_tl distinct_fitted_categories)
  have rows: "\<forall>row\<in>set ?M. length row = card (set xs) - 1 \<and> set row \<subseteq> {0, 1} \<and> sum_list row \<le> 1"
  proof
    fix row assume "row \<in> set ?M"
    then obtain x where row: "row = map (\<lambda>c. if x = c then 1 else (0::int)) ?cs" by auto
    have "length row = card (set xs) - 1" using row len by simp
    moreover have "set row \<subseteq> {0, 1}" using row by auto
    moreover have "sum_list row \<le> 1" unfolding row using dist by (rule indicator_sum_distinct)
    ultimately show "length row = card (set xs) - 1 \<and> set row \<subseteq> {0, 1} \<and> sum_list row \<le> 1"
      by simp
  qed
  show ?thesis
    using r len rows by (simp add: fitted_categories_eq)
qed

text \<open>The example: the three cities of \<open>people\<close>, of which \<^verbatim>\<open>A\<close> is the reference.\<close>

theorem one_hot_encoding_columns_witness:
  "column_values people ''city'' = Inr [StrVal ''B'', StrVal ''A'', StrVal ''C''] \<and>
   check_X py [StrVal ''B'', StrVal ''A'', StrVal ''C''] = None \<and>
   card (set [StrVal ''B'', StrVal ''A'', StrVal ''C'']) = 3 \<and>
   one_hot_encoding py people ''city'' =
     Inr (Int8Array [[1, 0], [0, 0], [0, 1]], Names [''city_one_hot_B'', ''city_one_hot_C''])"
proof -
  have h1: "column_values people ''city'' = Inr [StrVal ''B'', StrVal ''A'', StrVal ''C'']"
    by code_simp
  have h2: "[StrVal ''B'', StrVal ''A'', StrVal ''C''] \<noteq> []"
    by simp
  have h3: "check_X py [StrVal ''B'', StrVal ''A'', StrVal ''C''] = None"
    by code_simp
  have c: "card (set [StrVal ''B'', StrVal ''A'', StrVal ''C'']) = 3"
    by simp
  have v: "one_hot_encoding py people ''city'' =
     Inr (Int8Array [[1, 0], [0, 0], [0, 1]], Names [''city_one_hot_B'', ''city_one_hot_C''])"
    by code_simp
  show ?thesis
    using h1 h3 c v one_hot_encoding_columns [OF h1 h2 h3] by simp
qed

section \<open>Target encoding\<close>

lemma set_fitted_categories: "set (fitted_categories y) = set y"
  by (simp add: fitted_categories_def)

lemma folds_accept:
  assumes "\<exists>c\<in>set y. 5 \<le> count_list y c"
  shows "\<not> list_all (\<lambda>c. count_list y c < n_splits) (fitted_categories y)"
proof -
  from assms obtain c where c: "c \<in> set y" and m: "5 \<le> count_list y c" by blast
  from m have "\<not> count_list y c < n_splits"
    by (simp add: n_splits_def)
  with c have "\<exists>c\<in>set (fitted_categories y). \<not> count_list y c < n_splits"
    unfolding set_fitted_categories by blast
  then show ?thesis by (simp add: list_all_iff)
qed

text \<open>
  Claim C2, as amended. Let the target's category not be Numeric, and let the target
  encoder accept the source column and the target: there are five rows or more, some
  class has five members or more, the cell values pass the encoder's validation, and the
  target's values are found to be class labels. With exactly two classes
  \<^verbatim>\<open>tartet_encoding\<close> returns the one name \<^verbatim>\<open><col>_target\<close> and an array of one
  column. With more than two classes it returns one name \<^verbatim>\<open><col>_target_<class>\<close> per
  class, in sorted order of the classes, and an array with as many columns as there are
  classes.
\<close>

theorem tartet_encoding_columns:
  assumes "column_values df x_column = Inr x" and "target_series df target_column = Inr y"
    and "length x = length y" and "5 \<le> length x"
    and "\<exists>c\<in>set y. 5 \<le> count_list y c"
    and "check_X rt x = None" and "check_y rt (type_of_target rt y) y = None"
    and "\<not> is_continuous rt y" and "coltype \<noteq> ''Numeric''"
  shows "(card (set y) = 2 \<longrightarrow>
            (\<exists>M. tartet_encoding rt df x_column target_column coltype =
                    Inr (Float64Array M, Name (x_column @ ''_target'')) \<and>
                  length M = length x \<and> (\<forall>row\<in>set M. length row = 1))) \<and>
         (card (set y) > 2 \<longrightarrow>
            (\<exists>M names. tartet_encoding rt df x_column target_column coltype =
                    Inr (Float64Array M, Names names) \<and>
                  names = map (\<lambda>cat. x_column @ ''_target_'' @ str rt cat)
                            (sorted_list_of_set (set y)) \<and>
                  length names = card (set y) \<and>
                  length M = length x \<and> (\<forall>row\<in>set M. length row = card (set y))))"
proof (intro conjI impI)
  have ne: "x \<noteq> []" using assms(4) by auto
  have rows: "\<not> length x < n_splits" using assms(4) by (simp add: n_splits_def)
  note folds = folds_accept [OF assms(5)]
  {
    assume two: "card (set y) = 2"
    then have t: "type_of_target rt y = Binary"
      using assms(8) by (simp add: type_of_target_def length_remdups_card_conv)
    show "\<exists>M. tartet_encoding rt df x_column target_column coltype =
                    Inr (Float64Array M, Name (x_column @ ''_target'')) \<and>
                  length M = length x \<and> (\<forall>row\<in>set M. length row = 1)"
      using assms(1,2,3,6,7,9) ne rows folds t
      by (simp add: tartet_encoding_def TargetEncoder_fit_transform_def)
  }
  {
    assume more: "card (set y) > 2"
    then have t: "type_of_target rt y = Multiclass"
      using assms(8) by (simp add: type_of_target_def length_remdups_card_conv)
    show "\<exists>M names. tartet_encoding rt df x_column target_column coltype =
                    Inr (Float64Array M, Names names) \<and>
                  names = map (\<lambda>cat. x_column @ ''_target_'' @ str rt cat)
                            (sorted_list_of_set (set y)) \<and>
                  length names = card (set y) \<and>
                  length M = length x \<and> (\<forall>row\<in>set M. length row = card (set y))"
      using assms(1,2,3,6,7,9) ne rows folds t
      by (simp add: tartet_encoding_def TargetEncoder_fit_transform_def
            fitted_categories_eq [symmetric] length_fitted_categories)
  }
qed

text \<open>
  The example: the cities of \<open>survey\<close> against the two classes of \<^verbatim>\<open>smoker\<close> and
  against the three classes of \<^verbatim>\<open>level\<close>.
\<close>

theorem tartet_encoding_columns_witness:
  "card (set (vals (survey ! 1))) = 2 \<and>
   (\<exists>M. tartet_encoding py survey ''city'' ''smoker'' ''Categorical'' =
           Inr (Float64Array M, Name ''city_target'') \<and>
         length M = 15 \<and> list_all (\<lambda>row. length row = 1) M) \<and>
   card (set (vals (survey ! 2))) = 3 \<and>
   (\<exists>M. tartet_encoding py survey ''city'' ''level'' ''Categorical'' =
           Inr (Float64Array M,
                Names [''city_target_high'', ''city_target_low'', ''city_target_mid'']) \<and>
         length M = 15 \<and> list_all (\<lambda>row. length row = 3) M)"
proof -
  let ?x = "vals (survey ! 0)"
  let ?smoker = "vals (survey ! 1)"
  let ?level = "vals (survey ! 2)"
  have x: "column_values survey ''city'' = Inr ?x"
    by code_simp
  have y2: "target_series survey ''smoker'' = Inr ?smoker"
    by code_simp
  have y3: "target_series survey ''level'' = Inr ?level"
    by code_simp
  have l2: "length ?x = length ?smoker"
    by (simp add: survey_def)
  have l3: "length ?x = length ?level"
    by (simp add: survey_def)
  have n: "5 \<le> length ?x"
    by (simp add: survey_def)
  have n15: "length ?x = 15"
    by (simp add: survey_def)
  have m2: "\<exists>c\<in>set ?smoker. 5 \<le> count_list ?smoker c"
  proof
    show "StrVal ''no'' \<in> set ?smoker" by (simp add: survey_def)
    show "5 \<le> count_list ?smoker (StrVal ''no'')" by code_simp
  qed
  have m3: "\<exists>c\<in>set ?level. 5 \<le> count_list ?level c"
  proof
    show "StrVal ''low'' \<in> set ?level" by (simp add: survey_def)
    show "5 \<le> count_list ?level (StrVal ''low'')" by code_simp
  qed
  have cx: "check_X py ?x = None"
    by code_simp
  have cy2: "check_y py (type_of_target py ?smoker) ?smoker = None"
    by code_simp
  have cy3: "check_y py (type_of_target py ?level) ?level = None"
    by code_simp
  have nc2: "\<not> is_continuous py ?smoker"
    by (simp add: py_def)
  have nc3: "\<not> is_continuous py ?level"
    by (simp add: py_def)
  have ct: "''Categorical'' \<noteq> ''Numeric''"
    by simp
  have c2: "card (set ?smoker) = 2"
    by code_simp
  have c3: "card (set ?level) = 3"
    by code_simp
  have s3: "map (\<lambda>cat. ''city'' @ ''_target_'' @ str py cat) (sorted_list_of_set (set ?level)) =
              [''city_target_high'', ''city_target_low'', ''city_target_mid'']"
    by code_simp
  show ?thesis
    using c2 c3 s3 n15
      tartet_encoding_columns [OF x y2 l2 n m2 cx cy2 nc2 ct]
      tartet_encoding_columns [OF x y3 l3 n m3 cx cy3 nc3 ct]
    by (auto simp: list_all_iff)
qed

text \<open>
  Claim C2 as it is stated holds of every dataset. The six rows of \<open>drinkers\<close> refute
  it: \<^verbatim>\<open>smoker\<close> has two classes, of four and two members, \<^verbatim>\<open>level\<close> has three
  classes of two members each, and the five stratified folds cannot be formed; the call
  raises ValueError and returns no column.
\<close>

theorem tartet_encoding_columns_counterexample:
  "card (set (vals (drinkers ! 2))) = 2 \<and>
   tartet_encoding py drinkers ''city'' ''smoker'' ''Categorical'' = Inl ValueError \<and>
   card (set (vals (drinkers ! 3))) = 3 \<and>
   tartet_encoding py drinkers ''city'' ''level'' ''Categorical'' = Inl ValueError"
proof -
  have c2: "card (set (vals (drinkers ! 2))) = 2"
    by code_simp
  have v2: "tartet_encoding py drinkers ''city'' ''smoker'' ''Categorical'' = Inl ValueError"
    by code_simp
  have c3: "card (set (vals (drinkers ! 3))) = 3"
    by code_simp
  have v3: "tartet_encoding py drinkers ''city'' ''level'' ''Categorical'' = Inl ValueError"
    by code_simp
  show ?thesis
    using c2 v2 c3 v3 by simp
qed

text \<open>
  A target whose category is not Numeric but whose values the encoder finds continuous
  is outside the statement above. The encoder then fits a continuous target and leaves
  \<^verbatim>\<open>classes_\<close> at \<^verbatim>\<open>None\<close>; the source takes the branch that names one column per
  class and raises TypeError.
\<close>

lemma tartet_encoding_continuous_target:
  assumes "column_values df x_column = Inr x" and "target_series df target_column = Inr y"
    and "length x = length y" and "5 \<le> length x"
    and "check_X rt x = None" and "check_y rt Continuous y = None"
    and "is_continuous rt y" and "coltype \<noteq> ''Numeric''"
  shows "tartet_encoding rt df x_column target_column coltype = Inl TypeError"
proof -
  have ne: "x \<noteq> []" using assms(4) by auto
  have rows: "\<not> length x < n_splits" using assms(4) by (simp add: n_splits_def)
  have t: "type_of_target rt y = Continuous"
    using assms(7) by (simp add: type_of_target_def)
  show ?thesis
    using assms(1,2,3,5,6,8) ne rows t
    by (simp add: tartet_encoding_def TargetEncoder_fit_transform_def)
qed

section \<open>Recasting a column to the category it has\<close>

text \<open>
  Claim C5, as amended. When the previous dictionary records for a column the category
  that is requested for it, the call with that single request leaves the dataset as it
  is and returns it with the request dictionary, which is the new previous dictionary.
\<close>

theorem cast_dtype_recast_same_category:
  assumes "map_of orig_dict c = Some cat"
  shows "cast_dtype rt df orig_dict [(c, cat)] M = (df, Inr [(c, cat)])"
  using assms by (simp add: cast_dtype_def cast_key_def)

text \<open>The example: \<^verbatim>\<open>city\<close> is Categorical and is recast to Categorical.\<close>

theorem cast_dtype_recast_same_category_witness:
  "map_of people_types ''city'' = Some ''Categorical'' \<and>
   cast_dtype py people people_types [(''city'', ''Categorical'')] dtype_map =
     (people, Inr [(''city'', ''Categorical'')])"
proof -
  have h: "map_of people_types ''city'' = Some ''Categorical''"
    by (simp add: people_types_def)
  show ?thesis
    using h cast_dtype_recast_same_category [OF h, of py people dtype_map] by simp
qed

text \<open>
  Claim C5 as it is stated asks for the previous dictionary to be returned. The same
  example refutes it: the previous dictionary has the three columns, the dictionary
  returned has only the requested one.
\<close>

theorem cast_dtype_recast_counterexample:
  "cast_dtype py people people_types [(''city'', ''Categorical'')] dtype_map
     \<noteq> (people, Inr people_types) \<and>
   cast_dtype py people people_types [(''city'', ''Categorical'')] dtype_map
     = (people, Inr [(''city'', ''Categorical'')]) \<and>
   map_of [(''city'', ''Categorical'')] ''age'' = None \<and>
   map_of people_types ''age'' = Some ''Numeric''"
  by (simp add: cast_dtype_def cast_key_def people_types_def)

section \<open>A failing cast is not rolled back\<close>

lemma cast_loop_append:
  "cast_loop rt orig_dict M (pre @ post) df =
     (case cast_loop rt orig_dict M pre df of
        (df1, Some e) \<Rightarrow> (df1, Some e)
      | (df1, None) \<Rightarrow> cast_loop rt orig_dict M post df1)"
  by (induction pre arbitrary: df) (auto split: sum.splits)

lemma cast_dtype_returns:
  "(cast_dtype rt df orig_dict items M = (df1, Inr d)) =
   (cast_loop rt orig_dict M items df = (df1, None) \<and> d = items)"
  by (auto simp: cast_dtype_def split: prod.splits option.splits)

text \<open>
  Claim C6. Let the requests before some request succeed and leave the dataset in the
  state \<open>df1\<close>, and let the cast of that request fail on \<open>df1\<close>. Then the whole call
  raises that exception and leaves the dataset in the state \<open>df1\<close>: the columns before
  stay converted, and whatever requests follow are not processed.
\<close>

theorem cast_dtype_no_rollback:
  assumes "cast_dtype rt df orig_dict pre M = (df1, Inr pre)"
    and "cast_key rt df1 orig_dict M key r = Inl e"
  shows "cast_dtype rt df orig_dict (pre @ (key, r) # post) M = (df1, Inl e)"
proof -
  from assms(1) have "cast_loop rt orig_dict M pre df = (df1, None)"
    by (simp add: cast_dtype_returns)
  with assms(2) have "cast_loop rt orig_dict M (pre @ (key, r) # post) df = (df1, Some e)"
    by (simp add: cast_loop_append)
  then show ?thesis
    by (simp add: cast_dtype_def)
qed

text \<open>
  The example: \<^verbatim>\<open>age\<close> is cast to a category, the text of \<^verbatim>\<open>city\<close> cannot be cast
  to a number, and \<^verbatim>\<open>weight\<close> is left as it was.
\<close>

theorem cast_dtype_no_rollback_witness:
  "cast_dtype py people people_types [(''age'', ''Categorical'')] dtype_map =
     (people_age_cast, Inr [(''age'', ''Categorical'')]) \<and>
   cast_key py people_age_cast people_types dtype_map ''city'' ''Numeric'' = Inl ValueError \<and>
   cast_dtype py people people_types
     [(''age'', ''Categorical''), (''city'', ''Numeric''), (''weight'', ''Categorical'')] dtype_map =
     (people_age_cast, Inl ValueError)"
proof -
  have h1: "cast_dtype py people people_types [(''age'', ''Categorical'')] dtype_map =
     (people_age_cast, Inr [(''age'', ''Categorical'')])"
    by code_simp
  have h2: "cast_key py people_age_cast people_types dtype_map ''city'' ''Numeric'' = Inl ValueError"
    by code_simp
  show ?thesis
    using h1 h2 cast_dtype_no_rollback [OF h1 h2, of "[(''weight'', ''Categorical'')]"] by simp
qed

section \<open>More components than features\<close>

text \<open>
  Claim C7. When the number of components requested exceeds the number of columns of the
  feature matrix, \<^verbatim>\<open>create_pca_after\<close> fails; the exception is the ValueError of the
  decomposition (the specification's ComponentCountExceeded) unless the validation of
  the cell values has raised before it.
\<close>

theorem create_pca_after_too_many_components:
  assumes "int (n_features df) < n_comp"
  shows "(\<exists>e. create_pca_after rt df n_comp = Inl e) \<and>
         (pca_check rt df = None \<longrightarrow> create_pca_after rt df n_comp = Inl ValueError)"
  using assms
  by (auto simp: create_pca_after_def Pipeline_fit_transform_def split: option.splits)

text \<open>The example: five components of a feature matrix of three columns.\<close>

theorem create_pca_after_too_many_components_witness:
  "n_features people_features = 3 \<and>
   pca_check py people_features = None \<and>
   create_pca_after py people_features 5 = Inl ValueError"
proof -
  have h: "int (n_features people_features) < 5"
    by (simp add: n_features_def people_features_def)
  have n: "n_features people_features = 3"
    by (simp add: n_features_def people_features_def)
  have c: "pca_check py people_features = None"
    by code_simp
  show ?thesis
    using n c create_pca_after_too_many_components [OF h, of py] by simp
qed

section \<open>The cumulative explained variance\<close>










end
